theory Spec2Isabelle
  imports Complex_Main "HOL-Library.Word" "HOL-Library.AList"
begin

unbundle bit_operations_syntax

section \<open>Python values, exceptions and the world outside the process\<close>

text \<open>
  The embedding follows \<^verbatim>\<open>yaost/project.py\<close>. Exceptions are values: an operation that
  can raise returns \<open>exn + 'a\<close>, with \<open>Inl\<close> for the exception. Where the source catches
  an exception, the model has a \<open>case\<close> on that result and goes on with the state at that
  point. An exception that leaves an operation ends it; the state at that moment is then
  not tracked.
\<close>

type_synonym path = string

datatype exn = OSError | TypeError | AttributeError | KeyError | Raised string

text \<open>
  The objects that the cache mapping can hold: what \<^verbatim>\<open>json.load\<close> returns (dictionaries
  with string keys, lists, strings, numbers, booleans, \<^verbatim>\<open>None\<close>) and the \<^verbatim>\<open>UUID\<close> object
  that \<^verbatim>\<open>uuid.uuid4()\<close> returns. A dictionary is an association list: Python keeps the
  insertion order, and an assignment to an existing key keeps its place.
\<close>

datatype pyval =
    PNone
  | PBool bool
  | PNum rat
  | PStr string
  | PList "pyval list"
  | PDict "(string \<times> pyval) list"
  | PUuid "128 word"

text \<open>
  The file store is flat: a path is absent, a directory, or a regular file with a
  read permission, a write permission and its content. The directory hierarchy is not
  modelled.
\<close>

datatype fnode = Dir | File bool bool string

datatype level = INFO | ERROR

record world =
  files :: "path \<rightharpoonup> fnode"
  log :: "(level \<times> string) list"
  calls :: "string list list"
  uuid_ctr :: nat

text \<open>
  The collaborators that are not part of the repository are parameters of the model:
  the digest function of \<^verbatim>\<open>hashlib.sha256\<close>, the random source of \<^verbatim>\<open>uuid.uuid4\<close>, the JSON
  reader and writer, the serialisation method of a geometry object, and the child process
  started by \<^verbatim>\<open>subprocess.call\<close> (which may change any file, or fail to start).
  \<open>json_text v\<close> is the document that \<^verbatim>\<open>json.dump\<close> writes for a serialisable \<open>v\<close>, and
  \<open>json_prefix v\<close> is what it has written when it raises on a \<open>v\<close> that is not.
\<close>

record 'g ext =
  sha256 :: "string \<Rightarrow> 256 word"
  uuid4 :: "nat \<Rightarrow> 128 word"
  json_load :: "string \<Rightarrow> pyval option"
  json_text :: "pyval \<Rightarrow> string"
  json_prefix :: "pyval \<Rightarrow> string"
  to_string :: "'g \<Rightarrow> exn + string"
  subprocess_call :: "string list \<Rightarrow> (path \<rightharpoonup> fnode) \<Rightarrow> exn + (path \<rightharpoonup> fnode)"

subsection \<open>Files\<close>

definition os_path_exists :: "(path \<rightharpoonup> fnode) \<Rightarrow> path \<Rightarrow> bool" where
  "os_path_exists disk p = (disk p \<noteq> None)"

text \<open>\<^verbatim>\<open>open(p, "rb")\<close> or \<^verbatim>\<open>open(p, "r")\<close> followed by reading the whole file.\<close>

definition open_read :: "(path \<rightharpoonup> fnode) \<Rightarrow> path \<Rightarrow> exn + string" where
  "open_read disk p =
     (case disk p of
        Some (File True _ d) \<Rightarrow> Inr d
      | _ \<Rightarrow> Inl OSError)"

text \<open>
  \<^verbatim>\<open>open(p, "w")\<close>, the writes and the close of the \<^verbatim>\<open>with\<close> block: the file holds
  exactly what was written. A new file is readable and writable; an existing one keeps its
  permissions.
\<close>

definition open_write :: "(path \<rightharpoonup> fnode) \<Rightarrow> path \<Rightarrow> string \<Rightarrow> exn + (path \<rightharpoonup> fnode)" where
  "open_write disk p d =
     (if p = [] then Inl OSError
      else case disk p of
        None \<Rightarrow> Inr (disk(p \<mapsto> File True True d))
      | Some (File r True _) \<Rightarrow> Inr (disk(p \<mapsto> File r True d))
      | _ \<Rightarrow> Inl OSError)"

definition os_makedirs :: "path \<Rightarrow> world \<Rightarrow> exn + world" where
  "os_makedirs p w =
     (if p = [] then Inl OSError
      else case files w p of
        None \<Rightarrow> Inr (w\<lparr>files := (files w)(p \<mapsto> Dir)\<rparr>)
      | Some _ \<Rightarrow> Inl OSError)"

text \<open>\<^verbatim>\<open>os.path.join\<close> of two components, as \<^verbatim>\<open>posixpath\<close> computes it.\<close>

definition os_path_join :: "path \<Rightarrow> path \<Rightarrow> path" where
  "os_path_join a b =
     (if b \<noteq> [] \<and> hd b = CHR ''/'' then b
      else if a = [] \<or> last a = CHR ''/'' then a @ b
      else a @ ''/'' @ b)"

definition logger :: "level \<Rightarrow> string \<Rightarrow> world \<Rightarrow> world" where
  "logger l msg w = w\<lparr>log := log w @ [(l, msg)]\<rparr>"

section \<open>Fingerprints: \<^verbatim>\<open>Project._get_files_hash\<close>\<close>

definition separator :: string where
  "separator = [CHR 0x00, CHR 0x00, CHR 0x00, CHR 0x01, CHR 0x00, CHR 0x00]"

text \<open>
  \<^verbatim>\<open>iter(lambda: f.read(4096), b"")\<close>: blocks of 4096 bytes until the read returns nothing.
\<close>

function read_chunks :: "string \<Rightarrow> string list" where
  "read_chunks d = (if d = [] then [] else take 4096 d # read_chunks (drop 4096 d))"
  by pat_completeness auto
termination
  by (relation "measure length") auto

declare read_chunks.simps [simp del]

text \<open>
  The hash object is the sequence of bytes fed so far; \<^verbatim>\<open>h.update(b)\<close> appends, and
  \<^verbatim>\<open>h.hexdigest()\<close> is the digest of all of it, as 64 lower-case hexadecimal digits.
\<close>

definition h_update :: "string \<Rightarrow> string \<Rightarrow> string" where
  "h_update h b = h @ b"

definition hex_char :: "nat \<Rightarrow> char" where
  "hex_char d = ''0123456789abcdef'' ! d"

definition hexdigest :: "256 word \<Rightarrow> string" where
  "hexdigest d = map (\<lambda>i. hex_char (unat (drop_bit (4 * (63 - i)) d AND 15))) [0..<64]"

fun feed_files :: "(path \<rightharpoonup> fnode) \<Rightarrow> path list \<Rightarrow> string \<Rightarrow> exn + string" where
  "feed_files disk [] h = Inr h"
| "feed_files disk (filename # rest) h =
     (case open_read disk filename of
        Inl e \<Rightarrow> Inl e
      | Inr d \<Rightarrow> feed_files disk rest (foldl h_update (h_update h separator) (read_chunks d)))"

definition get_files_hash :: "'g ext \<Rightarrow> path list \<Rightarrow> world \<Rightarrow> pyval \<times> world" where
  "get_files_hash x filenames w =
     (case feed_files (files w) filenames [] of
        Inr h \<Rightarrow> (PStr (hexdigest (sha256 x h)), w)
      | Inl e \<Rightarrow>
          (PUuid (uuid4 x (uuid_ctr w)),
           (logger ERROR ''hashing gone wrong'' w)\<lparr>uuid_ctr := Suc (uuid_ctr w)\<rparr>))"

text \<open>The bytes of a regular file, for stating what a fingerprint is the digest of.\<close>

definition file_bytes :: "(path \<rightharpoonup> fnode) \<Rightarrow> path \<Rightarrow> string" where
  "file_bytes disk p = (case disk p of Some (File _ _ d) \<Rightarrow> d | _ \<Rightarrow> [])"

definition readable :: "(path \<rightharpoonup> fnode) \<Rightarrow> path \<Rightarrow> bool" where
  "readable disk p = (case disk p of Some (File True _ _) \<Rightarrow> True | _ \<Rightarrow> False)"


section \<open>The project: \<^verbatim>\<open>Project.__init__\<close>, \<^verbatim>\<open>add_part\<close>, \<^verbatim>\<open>get_part\<close>\<close>

text \<open>
  A geometry object is opaque (type \<open>'g\<close>); the registry maps a part name to a geometry
  object or to \<^verbatim>\<open>None\<close> (the default of \<^verbatim>\<open>add_part\<close>'s second argument). The resolution
  parameters are finite numbers, each modelled by the rational it denotes.
\<close>

record 'g project =
  fa :: rat
  fs :: rat
  fn :: rat
  name :: string
  parts :: "(string \<times> 'g option) list"

definition init_project :: "string \<Rightarrow> rat \<Rightarrow> rat \<Rightarrow> rat \<Rightarrow> 'g project" where
  "init_project nm a s n = \<lparr>fa = a, fs = s, fn = n, name = nm, parts = []\<rparr>"

text \<open>
  A callable is its \<^verbatim>\<open>__name__\<close> and what calling it with no argument does: it raises, or
  it returns an object.
\<close>

datatype 'g callable = Callable (fn_name: string) (fn_call: "exn + 'g option")

datatype 'g name_or_method = Method "'g callable" | Name string

definition lower_char :: "char \<Rightarrow> char" where
  "lower_char c =
     (let k = (of_char c :: nat) in if 65 \<le> k \<and> k \<le> 90 then char_of (k + 32) else c)"

definition part_name :: "string \<Rightarrow> string" where
  "part_name s = map (\<lambda>c. if c = CHR ''_'' then CHR ''-'' else c) (map lower_char s)"

text \<open>The body of the \<^verbatim>\<open>try\<close> block of \<^verbatim>\<open>add_part\<close>: the method and the new registry.\<close>

definition add_part_try ::
  "'g name_or_method \<Rightarrow> 'g option \<Rightarrow> 'g project \<Rightarrow> exn + ('g callable option \<times> 'g project)" where
  "add_part_try name_or_method model prj =
     (case name_or_method of
        Method m \<Rightarrow>
          (case fn_call m of
             Inl e \<Rightarrow> Inl e
           | Inr model' \<Rightarrow>
               Inr (Some m, prj\<lparr>parts := AList.update (part_name (fn_name m)) model' (parts prj)\<rparr>))
      | Name n \<Rightarrow> Inr (None, prj\<lparr>parts := AList.update n model (parts prj)\<rparr>))"

text \<open>
  \<^verbatim>\<open>method\<close> is assigned before the call that may raise, so the method is returned in
  both cases.
\<close>

definition add_part ::
  "'g name_or_method \<Rightarrow> 'g option \<Rightarrow> 'g project \<times> world \<Rightarrow>
   exn + ('g callable option \<times> 'g project \<times> world)" where
  "add_part name_or_method model pw =
     (case pw of (prj, w) \<Rightarrow>
        (case add_part_try name_or_method model prj of
           Inr (method, prj') \<Rightarrow> Inr (method, prj', w)
         | Inl e \<Rightarrow>
             Inr (case name_or_method of Method m \<Rightarrow> Some m | Name n \<Rightarrow> None,
                  prj, logger ERROR ''failed to add model'' w)))"

definition get_part :: "'g project \<Rightarrow> string \<Rightarrow> exn + 'g option" where
  "get_part prj n = (case map_of (parts prj) n of None \<Rightarrow> Inl KeyError | Some m \<Rightarrow> Inr m)"

section \<open>Emitting descriptions: \<^verbatim>\<open>Project.build_scad\<close>\<close>

record args =
  scad_directory :: string
  stl_directory :: string
  cache_file :: string
  force :: bool
  debug :: bool

text \<open>
  \<^verbatim>\<open>'{:.4f}'.format(q)\<close> for a finite number: the value rounded to four decimals, ties to
  the even neighbour, with a minus sign for a negative value.
\<close>

definition round_half_even :: "rat \<Rightarrow> int" where
  "round_half_even q =
     (let f = \<lfloor>q\<rfloor>; r = q - of_int f
      in if r < 1 / 2 then f else if 1 / 2 < r then f + 1 else if even f then f else f + 1)"

definition digit_char :: "nat \<Rightarrow> char" where
  "digit_char d = char_of (48 + d)"

fun dec_digits :: "nat \<Rightarrow> string" where
  "dec_digits n = (if n < 10 then [digit_char n] else dec_digits (n div 10) @ [digit_char (n mod 10)])"

declare dec_digits.simps [simp del]

definition format_4f :: "rat \<Rightarrow> string" where
  "format_4f q =
     (let n = nat (round_half_even (\<bar>q\<bar> * 10000))
      in (if q < 0 then ''-'' else []) @ dec_digits (n div 10000) @ ''.'' @
         map (\<lambda>k. digit_char (n div 10 ^ k mod 10)) [3, 2, 1, 0])"

definition scad_header :: "'g project \<Rightarrow> string" where
  "scad_header prj =
     ''$fa='' @ format_4f (fa prj) @ '';'' @ [CHR 0x0A] @
     ''$fs='' @ format_4f (fs prj) @ '';'' @ [CHR 0x0A] @
     ''$fn='' @ format_4f (fn prj) @ '';'' @ [CHR 0x0A]"

text \<open>\<^verbatim>\<open>model.to_string()\<close>, which raises on \<^verbatim>\<open>None\<close>.\<close>

definition model_to_string :: "'g ext \<Rightarrow> 'g option \<Rightarrow> exn + string" where
  "model_to_string x model =
     (case model of None \<Rightarrow> Inl AttributeError | Some g \<Rightarrow> to_string x g)"

text \<open>
  The body of the loop of \<^verbatim>\<open>build_scad\<close> for one part. The file is opened first, so a
  path that cannot be opened raises before the geometry is serialised.
\<close>

definition write_scad_file ::
  "'g ext \<Rightarrow> 'g project \<Rightarrow> args \<Rightarrow> string \<times> 'g option \<Rightarrow> world \<Rightarrow> exn + world" where
  "write_scad_file x prj a part w =
     (case part of (n, model) \<Rightarrow>
        (let w1 = logger INFO (''building '' @ n @ ''.scad'') w;
             file_path = os_path_join (scad_directory a) (n @ ''.scad'')
         in case open_write (files w1) file_path (scad_header prj) of
              Inl e \<Rightarrow> Inl e
            | Inr _ \<Rightarrow>
                (case model_to_string x model of
                   Inl e \<Rightarrow> Inl e
                 | Inr txt \<Rightarrow>
                     (case open_write (files w1) file_path (scad_header prj @ txt) of
                        Inl e \<Rightarrow> Inl e
                      | Inr disk' \<Rightarrow> Inr (w1\<lparr>files := disk'\<rparr>)))))"

fun write_scad_parts ::
  "'g ext \<Rightarrow> 'g project \<Rightarrow> args \<Rightarrow> (string \<times> 'g option) list \<Rightarrow> world \<Rightarrow> exn + world" where
  "write_scad_parts x prj a [] w = Inr w"
| "write_scad_parts x prj a (part # rest) w =
     (case write_scad_file x prj a part w of
        Inl e \<Rightarrow> Inl e
      | Inr w' \<Rightarrow> write_scad_parts x prj a rest w')"

definition ensure_directory :: "path \<Rightarrow> world \<Rightarrow> exn + world" where
  "ensure_directory d w = (if \<not> os_path_exists (files w) d then os_makedirs d w else Inr w)"

definition build_scad :: "'g ext \<Rightarrow> 'g project \<Rightarrow> args \<Rightarrow> world \<Rightarrow> exn + world" where
  "build_scad x prj a w =
     (case ensure_directory (scad_directory a) w of
        Inl e \<Rightarrow> Inl e
      | Inr w1 \<Rightarrow> write_scad_parts x prj a (parts prj) w1)"

section \<open>The cache store: \<^verbatim>\<open>Project._read_cache\<close>, \<^verbatim>\<open>Project._write_cache\<close>\<close>

text \<open>
  \<^verbatim>\<open>json.dump\<close> raises on an object it cannot serialise; of the objects of the model, that
  is the \<^verbatim>\<open>UUID\<close>, wherever it stands. It writes to the open file as it goes, so an
  unserialisable object leaves an unfinished document behind.
\<close>

fun serializable :: "pyval \<Rightarrow> bool" where
  "serializable (PUuid u) = False"
| "serializable (PList vs) = list_all serializable vs"
| "serializable (PDict kvs) = list_all (\<lambda>kv. serializable (snd kv)) kvs"
| "serializable v = True"

definition json_dump :: "'g ext \<Rightarrow> pyval \<Rightarrow> string \<times> bool" where
  "json_dump x v = (if serializable v then (json_text x v, True) else (json_prefix x v, False))"

definition read_cache :: "'g ext \<Rightarrow> path \<Rightarrow> world \<Rightarrow> exn + (pyval \<times> world)" where
  "read_cache x cache_path w =
     (if \<not> os_path_exists (files w) cache_path then Inr (PDict [], w)
      else case open_read (files w) cache_path of
             Inl e \<Rightarrow> Inr (PDict [], logger ERROR ''reading cache failed'' w)
           | Inr txt \<Rightarrow>
               (case json_load x txt of
                  None \<Rightarrow> Inr (PDict [], logger ERROR ''reading cache failed'' w)
                | Some result \<Rightarrow> Inr (result, w)))"

definition write_cache :: "'g ext \<Rightarrow> path \<Rightarrow> pyval \<Rightarrow> world \<Rightarrow> exn + world" where
  "write_cache x cache_path cache w =
     (case json_dump x cache of (txt, finished) \<Rightarrow>
        (case open_write (files w) cache_path txt of
           Inl e \<Rightarrow> Inr (logger ERROR ''writing cache failed'' w)
         | Inr disk' \<Rightarrow>
             (if finished then Inr (w\<lparr>files := disk'\<rparr>)
              else Inr (logger ERROR ''writing cache failed'' (w\<lparr>files := disk'\<rparr>)))))"

section \<open>Building artifacts: \<^verbatim>\<open>Project.build_stl\<close>\<close>

subsection \<open>The operations of Python on the cache object\<close>

fun is_substring :: "string \<Rightarrow> string \<Rightarrow> bool" where
  "is_substring k [] = (k = [])"
| "is_substring k (c # s) = (take (length k) (c # s) = k \<or> is_substring k s)"

text \<open>\<^verbatim>\<open>key in obj\<close>\<close>

definition py_contains :: "string \<Rightarrow> pyval \<Rightarrow> exn + bool" where
  "py_contains key obj =
     (case obj of
        PDict kvs \<Rightarrow> Inr (map_of kvs key \<noteq> None)
      | PList vs \<Rightarrow> Inr (PStr key \<in> set vs)
      | PStr s \<Rightarrow> Inr (is_substring key s)
      | _ \<Rightarrow> Inl TypeError)"

text \<open>\<^verbatim>\<open>obj[key]\<close>\<close>

definition py_getitem :: "pyval \<Rightarrow> string \<Rightarrow> exn + pyval" where
  "py_getitem obj key =
     (case obj of
        PDict kvs \<Rightarrow> (case map_of kvs key of None \<Rightarrow> Inl KeyError | Some v \<Rightarrow> Inr v)
      | _ \<Rightarrow> Inl TypeError)"

text \<open>\<^verbatim>\<open>obj[key] = v\<close>\<close>

definition py_setitem :: "pyval \<Rightarrow> string \<Rightarrow> pyval \<Rightarrow> exn + pyval" where
  "py_setitem obj key v =
     (case obj of
        PDict kvs \<Rightarrow> Inr (PDict (AList.update key v kvs))
      | _ \<Rightarrow> Inl TypeError)"

text \<open>\<^verbatim>\<open>obj.get(key, default)\<close>\<close>

definition py_get :: "pyval \<Rightarrow> string \<Rightarrow> pyval \<Rightarrow> exn + pyval" where
  "py_get obj key dflt =
     (case obj of
        PDict kvs \<Rightarrow> Inr (case map_of kvs key of None \<Rightarrow> dflt | Some v \<Rightarrow> v)
      | _ \<Rightarrow> Inl AttributeError)"

text \<open>
  \<^verbatim>\<open>cache['scad_cache'][key] = hc\<close>: the inner dictionary is changed in place, so the outer
  one holds the changed dictionary under the same key.
\<close>

definition cache_store :: "pyval \<Rightarrow> string \<Rightarrow> pyval \<Rightarrow> exn + pyval" where
  "cache_store cache key hc =
     (case py_getitem cache ''scad_cache'' of
        Inl e \<Rightarrow> Inl e
      | Inr inner \<Rightarrow>
          (case py_setitem inner key hc of
             Inl e \<Rightarrow> Inl e
           | Inr inner' \<Rightarrow> py_setitem cache ''scad_cache'' inner'))"

text \<open>\<^verbatim>\<open>cache['scad_cache'].get(key, '')\<close>\<close>

definition cache_lookup :: "pyval \<Rightarrow> string \<Rightarrow> exn + pyval" where
  "cache_lookup cache key =
     (case py_getitem cache ''scad_cache'' of
        Inl e \<Rightarrow> Inl e
      | Inr inner \<Rightarrow> py_get inner key (PStr []))"

subsection \<open>The loop over the parts\<close>

definition scad_path :: "args \<Rightarrow> string \<Rightarrow> path" where
  "scad_path a n = os_path_join (scad_directory a) (n @ ''.scad'')"

definition stl_path :: "args \<Rightarrow> string \<Rightarrow> path" where
  "stl_path a n = os_path_join (stl_directory a) (n @ ''.stl'')"

definition command_args :: "args \<Rightarrow> string \<Rightarrow> string list" where
  "command_args a n = [''openscad'', scad_path a n, ''-o'', stl_path a n]"

text \<open>
  The test at the head of the loop body: \<open>Inr (True, _)\<close> is the \<^verbatim>\<open>continue\<close>. The
  fingerprint is computed before the cache is consulted.
\<close>

definition up_to_date ::
  "'g ext \<Rightarrow> args \<Rightarrow> string \<Rightarrow> pyval \<Rightarrow> world \<Rightarrow> exn + (bool \<times> world)" where
  "up_to_date x a n cache w =
     (if os_path_exists (files w) (stl_path a n) \<and> \<not> force a then
        (case get_files_hash x [scad_path a n, stl_path a n] w of (hc, w') \<Rightarrow>
           (case cache_lookup cache (scad_path a n) of
              Inl e \<Rightarrow> Inl e
            | Inr v \<Rightarrow> Inr (v = hc, w')))
      else Inr (False, w))"

text \<open>The rest of the loop body: the compiler, the fingerprint after it, the cache.\<close>

definition compile_part ::
  "'g ext \<Rightarrow> args \<Rightarrow> string \<Rightarrow> pyval \<Rightarrow> world \<Rightarrow> exn + (pyval \<times> world)" where
  "compile_part x a n cache w =
     (case subprocess_call x (command_args a n) (files w) of
        Inl e \<Rightarrow> Inl e
      | Inr disk' \<Rightarrow>
          (case get_files_hash x [scad_path a n, stl_path a n]
                  (w\<lparr>files := disk', calls := calls w @ [command_args a n]\<rparr>) of
             (hc, w') \<Rightarrow>
               (case cache_store cache (scad_path a n) hc of
                  Inl e \<Rightarrow> Inl e
                | Inr cache' \<Rightarrow> Inr (cache', w'))))"

definition build_stl_part ::
  "'g ext \<Rightarrow> args \<Rightarrow> string \<Rightarrow> pyval \<Rightarrow> world \<Rightarrow> exn + (pyval \<times> world)" where
  "build_stl_part x a n cache w =
     (case up_to_date x a n cache (logger INFO (''building '' @ n @ ''.stl'') w) of
        Inl e \<Rightarrow> Inl e
      | Inr (skip, w') \<Rightarrow> if skip then Inr (cache, w') else compile_part x a n cache w')"

fun build_stl_parts ::
  "'g ext \<Rightarrow> args \<Rightarrow> string list \<Rightarrow> pyval \<Rightarrow> world \<Rightarrow> exn + (pyval \<times> world)" where
  "build_stl_parts x a [] cache w = Inr (cache, w)"
| "build_stl_parts x a (n # rest) cache w =
     (case build_stl_part x a n cache w of
        Inl e \<Rightarrow> Inl e
      | Inr (cache', w') \<Rightarrow> build_stl_parts x a rest cache' w')"

text \<open>The lines of \<^verbatim>\<open>build_stl\<close> between reading the cache and the loop.\<close>

definition ensure_scad_cache :: "pyval \<Rightarrow> exn + pyval" where
  "ensure_scad_cache cache =
     (case py_contains ''scad_cache'' cache of
        Inl e \<Rightarrow> Inl e
      | Inr present \<Rightarrow>
          if \<not> present then py_setitem cache ''scad_cache'' (PDict []) else Inr cache)"

text \<open>
  \<^verbatim>\<open>build_stl\<close> up to the end of the loop: the cache mapping in memory and the world
  before the cache is written.
\<close>

definition build_stl_cache ::
  "'g ext \<Rightarrow> 'g project \<Rightarrow> args \<Rightarrow> world \<Rightarrow> exn + (pyval \<times> world)" where
  "build_stl_cache x prj a w =
     (case build_scad x prj a w of
        Inl e \<Rightarrow> Inl e
      | Inr w1 \<Rightarrow>
          (case read_cache x (cache_file a) w1 of
             Inl e \<Rightarrow> Inl e
           | Inr (cache, w2) \<Rightarrow>
               (case ensure_scad_cache cache of
                  Inl e \<Rightarrow> Inl e
                | Inr cache1 \<Rightarrow>
                    (case ensure_directory (stl_directory a) w2 of
                       Inl e \<Rightarrow> Inl e
                     | Inr w3 \<Rightarrow> build_stl_parts x a (map fst (parts prj)) cache1 w3))))"

definition build_stl :: "'g ext \<Rightarrow> 'g project \<Rightarrow> args \<Rightarrow> world \<Rightarrow> exn + world" where
  "build_stl x prj a w =
     (case build_stl_cache x prj a w of
        Inl e \<Rightarrow> Inl e
      | Inr (cache, w') \<Rightarrow> write_cache x (cache_file a) cache w')"

section \<open>The driver: \<^verbatim>\<open>Project.run\<close>\<close>

text \<open>
  The argument parser is not part of the repository: \<open>parse_args\<close> gives the parsed
  options and the selected operation (\<^verbatim>\<open>args.func\<close>), or the exception it leaves with.
  \<^verbatim>\<open>watch\<close> loops until an exception ends it: its result is that exception, or nothing
  when it runs forever (\<open>None\<close>); what its session does to the files is not modelled.
  The state of the process is the class attribute \<^verbatim>\<open>_single_run_guard\<close> and the world.
\<close>

datatype command = Help | Watch | BuildScad | BuildStl

record 'g driver =
  parse_args :: "string list \<Rightarrow> exn + (args \<times> command)"
  watch_session :: "args \<Rightarrow> world \<Rightarrow> exn option"
  library :: "'g ext"

definition watch :: "'g driver \<Rightarrow> args \<Rightarrow> world \<Rightarrow> (exn + world) option" where
  "watch dr a w = map_option Inl (watch_session dr a w)"

definition dispatch ::
  "'g driver \<Rightarrow> 'g project \<Rightarrow> args \<Rightarrow> command \<Rightarrow> world \<Rightarrow> (exn + world) option" where
  "dispatch dr prj a cmd w =
     (case cmd of
        Help \<Rightarrow> Some (Inr w)
      | Watch \<Rightarrow> watch dr a w
      | BuildScad \<Rightarrow> Some (build_scad (library dr) prj a w)
      | BuildStl \<Rightarrow> Some (build_stl (library dr) prj a w))"

definition run ::
  "'g driver \<Rightarrow> 'g project \<Rightarrow> string list \<Rightarrow> bool \<times> world \<Rightarrow> bool \<times> (exn + world) option" where
  "run dr prj argv st =
     (case st of (single_run_guard, w) \<Rightarrow>
        if single_run_guard then (single_run_guard, Some (Inr w))
        else (True,
              case parse_args dr argv of
                Inl e \<Rightarrow> Some (Inl e)
              | Inr (a, cmd) \<Rightarrow> dispatch dr prj a cmd w))"

section \<open>A small project, for concrete runs\<close>

text \<open>
  A project with the part \<^verbatim>\<open>bolt\<close>, the default directories of the command line, and
  stand-ins for the collaborators: a geometry object is its own text, the digest of a byte
  sequence is its length, the compiler writes a fixed artifact to its output path, and the
  JSON library knows two documents.
\<close>

definition demo_fingerprint :: pyval where
  "demo_fingerprint = PStr (hexdigest 64)"

definition demo_cache :: pyval where
  "demo_cache = PDict [(''scad_cache'', PDict [(''scad/bolt.scad'', demo_fingerprint)])]"

definition demo_ext :: "string ext" where
  "demo_ext =
     \<lparr>sha256 = (\<lambda>b. of_nat (length b)),
      uuid4 = of_nat,
      json_load = (\<lambda>s. if s = ''{}'' then Some (PDict [])
                        else if s = ''{bolt}'' then Some demo_cache else None),
      json_text = (\<lambda>v. if v = demo_cache then ''{bolt}'' else ''{}''),
      json_prefix = (\<lambda>v. ''{''),
      to_string = Inr,
      subprocess_call = (\<lambda>cmd disk. Inr (disk(cmd ! 3 \<mapsto> File True True ''solid'')))\<rparr>"

definition demo_args :: args where
  "demo_args =
     \<lparr>scad_directory = ''scad'', stl_directory = ''stl'', cache_file = ''.yaost.cache'',
      force = False, debug = False\<rparr>"

definition demo_project :: "string project" where
  "demo_project =
     \<lparr>fa = 3, fs = 1 / 2, fn = 0, name = ''bolt and nut'',
      parts = [(''bolt'', Some ''cylinder();'')]\<rparr>"

definition demo_world :: world where
  "demo_world = \<lparr>files = Map.empty, log = [], calls = [], uuid_ctr = 0\<rparr>"

text \<open>The files after a first build of the project.\<close>

definition demo_disk :: "path \<rightharpoonup> fnode" where
  "demo_disk =
     [''scad'' \<mapsto> Dir, ''stl'' \<mapsto> Dir,
      ''scad/bolt.scad'' \<mapsto>
         File True True (''$fa=3.0000;'' @ [CHR 0x0A] @ ''$fs=0.5000;'' @ [CHR 0x0A] @
                         ''$fn=0.0000;'' @ [CHR 0x0A] @ ''cylinder();''),
      ''stl/bolt.stl'' \<mapsto> File True True ''solid'',
      ''.yaost.cache'' \<mapsto> File True True ''{bolt}'']"

definition demo_built :: world where
  "demo_built = \<lparr>files = demo_disk, log = [], calls = [], uuid_ctr = 0\<rparr>"

section \<open>Properties of the fingerprint\<close>

lemma concat_read_chunks: "concat (read_chunks d) = d"
proof (induction d rule: read_chunks.induct)
  case (1 d)
  show ?case
  proof (cases "d = []")
    case True
    then show ?thesis by (simp add: read_chunks.simps [of "[]"])
  next
    case False
    with "1.IH" have "concat (read_chunks (drop 4096 d)) = drop 4096 d" by simp
    with False show ?thesis by (simp add: read_chunks.simps [of d])
  qed
qed

lemma foldl_h_update: "foldl h_update h cs = h @ concat cs"
  by (induction cs arbitrary: h) (simp_all add: h_update_def)

lemma open_read_readable: "readable disk p \<Longrightarrow> open_read disk p = Inr (file_bytes disk p)"
  by (auto simp: readable_def open_read_def file_bytes_def split: option.splits fnode.splits bool.splits)

lemma open_read_not_readable: "\<not> readable disk p \<Longrightarrow> open_read disk p = Inl OSError"
  by (auto simp: readable_def open_read_def split: option.splits fnode.splits bool.splits)

lemma feed_files_readable:
  "\<forall>p \<in> set ps. readable disk p \<Longrightarrow>
   feed_files disk ps h = Inr (h @ concat (map (\<lambda>p. separator @ file_bytes disk p) ps))"
proof (induction ps arbitrary: h)
  case Nil
  then show ?case by simp
next
  case (Cons p ps)
  then have "open_read disk p = Inr (file_bytes disk p)"
    by (simp add: open_read_readable)
  with Cons show ?case
    by (simp add: foldl_h_update concat_read_chunks h_update_def)
qed

lemma feed_files_unreadable:
  "\<exists>p \<in> set ps. \<not> readable disk p \<Longrightarrow> feed_files disk ps h = Inl OSError"
proof (induction ps arbitrary: h)
  case Nil
  then show ?case by simp
next
  case (Cons p ps)
  show ?case
  proof (cases "readable disk p")
    case True
    with Cons.prems have "\<exists>q \<in> set ps. \<not> readable disk q" by auto
    with Cons.IH True show ?thesis by (simp add: open_read_readable)
  next
    case False
    then show ?thesis by (simp add: open_read_not_readable)
  qed
qed

lemma length_hexdigest: "length (hexdigest d) = 64"
  by (simp add: hexdigest_def)

lemma get_files_hash_ok:
  "\<forall>p \<in> set ps. readable (files w) p \<Longrightarrow>
   get_files_hash x ps w =
     (PStr (hexdigest (sha256 x (concat (map (\<lambda>p. separator @ file_bytes (files w) p) ps)))), w)"
  by (simp add: get_files_hash_def feed_files_readable)

lemma get_files_hash_fallback:
  "\<exists>p \<in> set ps. \<not> readable (files w) p \<Longrightarrow>
   get_files_hash x ps w =
     (PUuid (uuid4 x (uuid_ctr w)),
      (logger ERROR ''hashing gone wrong'' w)\<lparr>uuid_ctr := Suc (uuid_ctr w)\<rparr>)"
  by (simp add: get_files_hash_def feed_files_unreadable)

text \<open>
  Claim C5. The fingerprint of a list of readable files is the digest of the bytes fed to
  the hash object: for each file, in the order given, the separator of six bytes and then
  the whole content of the file. So it depends only on the contents, in their order: a
  second computation over files with the same contents gives the same fingerprint.
\<close>

theorem fingerprint_is_digest_of_separated_contents:
  "length separator = 6 \<and>
   ((\<forall>p \<in> set filenames. readable (files w) p) \<longrightarrow>
      get_files_hash x filenames w =
        (PStr (hexdigest (sha256 x
           (concat (map (\<lambda>p. separator @ file_bytes (files w) p) filenames)))), w) \<and>
      (\<forall>w'. (\<forall>p \<in> set filenames.
                readable (files w') p \<and> file_bytes (files w') p = file_bytes (files w) p) \<longrightarrow>
            fst (get_files_hash x filenames w') = fst (get_files_hash x filenames w)))"
proof -
  have sep: "length separator = 6"
    by (simp add: separator_def)
  have same: "map (\<lambda>p. separator @ file_bytes d' p) ps = map (\<lambda>p. separator @ file_bytes d p) ps"
    if "\<forall>p \<in> set ps. file_bytes d' p = file_bytes d p" for d d' :: "path \<rightharpoonup> fnode" and ps
    using that by simp
  show ?thesis
  proof (intro conjI impI allI)
    show "length separator = 6" by (rule sep)
  next
    assume "\<forall>p \<in> set filenames. readable (files w) p"
    then show "get_files_hash x filenames w =
        (PStr (hexdigest (sha256 x
           (concat (map (\<lambda>p. separator @ file_bytes (files w) p) filenames)))), w)"
      by (rule get_files_hash_ok)
  next
    fix w' :: world
    assume r: "\<forall>p \<in> set filenames. readable (files w) p"
      and r': "\<forall>p \<in> set filenames.
                readable (files w') p \<and> file_bytes (files w') p = file_bytes (files w) p"
    from r' have eq: "map (\<lambda>p. separator @ file_bytes (files w') p) filenames =
                  map (\<lambda>p. separator @ file_bytes (files w) p) filenames"
      by (intro same) simp
    from r' have "\<forall>p \<in> set filenames. readable (files w') p" by simp
    then have h': "get_files_hash x filenames w' =
        (PStr (hexdigest (sha256 x
           (concat (map (\<lambda>p. separator @ file_bytes (files w') p) filenames)))), w')"
      by (rule get_files_hash_ok)
    from r have h: "get_files_hash x filenames w =
        (PStr (hexdigest (sha256 x
           (concat (map (\<lambda>p. separator @ file_bytes (files w) p) filenames)))), w)"
      by (rule get_files_hash_ok)
    show "fst (get_files_hash x filenames w') = fst (get_files_hash x filenames w)"
      by (simp only: h h' eq fst_conv)
  qed
qed

theorem fingerprint_is_digest_witness:
  "readable demo_disk ''scad/bolt.scad'' \<and> readable demo_disk ''stl/bolt.stl'' \<and>
   get_files_hash demo_ext [''scad/bolt.scad'', ''stl/bolt.stl''] demo_built =
     (demo_fingerprint, demo_built)"
  using fingerprint_is_digest_of_separated_contents
          [of "[''scad/bolt.scad'', ''stl/bolt.stl'']" demo_built demo_ext]
  by (simp add: readable_def demo_built_def demo_disk_def demo_ext_def demo_fingerprint_def
        file_bytes_def separator_def)

end
